theory Spec2Isabelle
  imports Complex_Main
begin

section \<open>JavaScript numbers\<close>

text \<open>
  A JavaScript number is modelled as a finite real or one of the three special values
  of IEEE arithmetic. The operations of this section are exact on finite values: they
  neither round nor overflow (a later section adds both for the methods whose claims
  depend on them), and the two zeros are not told apart (a division of a
  non-zero value by zero gives the infinity of the sign of the numerator). The special
  values follow IEEE: anything with \<open>NaN\<close> is \<open>NaN\<close>, every comparison with \<open>NaN\<close> is
  false, \<open>Infinity - Infinity\<close>, \<open>0 * Infinity\<close>, \<open>0 / 0\<close> and
  \<open>Infinity / Infinity\<close> are \<open>NaN\<close>.
\<close>

datatype jsnum = Fin real | PInf | NInf | NaN

fun isFinite :: "jsnum \<Rightarrow> bool" where
  "isFinite (Fin a) = True"
| "isFinite PInf = False"
| "isFinite NInf = False"
| "isFinite NaN = False"

text \<open>The sign of a number that is not \<open>NaN\<close>, and the infinity of a given sign.\<close>

fun sign_of :: "jsnum \<Rightarrow> real" where
  "sign_of (Fin a) = sgn a"
| "sign_of PInf = 1"
| "sign_of NInf = - 1"
| "sign_of NaN = 0"

definition inf_of_sign :: "real \<Rightarrow> jsnum" where
  "inf_of_sign s = (if s > 0 then PInf else if s < 0 then NInf else NaN)"

fun jneg :: "jsnum \<Rightarrow> jsnum" where
  "jneg (Fin a) = Fin (- a)"
| "jneg PInf = NInf"
| "jneg NInf = PInf"
| "jneg NaN = NaN"

fun jadd :: "jsnum \<Rightarrow> jsnum \<Rightarrow> jsnum" where
  "jadd (Fin a) (Fin b) = Fin (a + b)"
| "jadd NaN b = NaN"
| "jadd a NaN = NaN"
| "jadd PInf NInf = NaN"
| "jadd NInf PInf = NaN"
| "jadd PInf b = PInf"
| "jadd NInf b = NInf"
| "jadd (Fin a) b = b"

definition jsub :: "jsnum \<Rightarrow> jsnum \<Rightarrow> jsnum" where
  "jsub a b = jadd a (jneg b)"

fun jmul :: "jsnum \<Rightarrow> jsnum \<Rightarrow> jsnum" where
  "jmul (Fin a) (Fin b) = Fin (a * b)"
| "jmul NaN b = NaN"
| "jmul a NaN = NaN"
| "jmul a b = inf_of_sign (sign_of a * sign_of b)"

fun jdiv :: "jsnum \<Rightarrow> jsnum \<Rightarrow> jsnum" where
  "jdiv (Fin a) (Fin b) = (if b = 0 then inf_of_sign a else Fin (a / b))"
| "jdiv NaN b = NaN"
| "jdiv a NaN = NaN"
| "jdiv (Fin a) b = Fin 0"
| "jdiv a (Fin b) = inf_of_sign (sign_of a * (if b < 0 then - 1 else 1))"
| "jdiv a b = NaN"

text \<open>\<open>Math.sqrt\<close>, \<open>Math.exp\<close>, \<open>Math.sin\<close>, \<open>Math.cos\<close>, \<open>Math.acos\<close>, \<open>Math.abs\<close>.\<close>

fun jsqrt :: "jsnum \<Rightarrow> jsnum" where
  "jsqrt (Fin a) = (if a < 0 then NaN else Fin (sqrt a))"
| "jsqrt PInf = PInf"
| "jsqrt NInf = NaN"
| "jsqrt NaN = NaN"

fun jexp :: "jsnum \<Rightarrow> jsnum" where
  "jexp (Fin a) = Fin (exp a)"
| "jexp PInf = PInf"
| "jexp NInf = Fin 0"
| "jexp NaN = NaN"

fun jsin :: "jsnum \<Rightarrow> jsnum" where
  "jsin (Fin a) = Fin (sin a)"
| "jsin a = NaN"

fun jcos :: "jsnum \<Rightarrow> jsnum" where
  "jcos (Fin a) = Fin (cos a)"
| "jcos a = NaN"

fun jacos :: "jsnum \<Rightarrow> jsnum" where
  "jacos (Fin a) = (if a < - 1 \<or> 1 < a then NaN else Fin (arccos a))"
| "jacos a = NaN"

fun jabs :: "jsnum \<Rightarrow> jsnum" where
  "jabs (Fin a) = Fin \<bar>a\<bar>"
| "jabs PInf = PInf"
| "jabs NInf = PInf"
| "jabs NaN = NaN"

text \<open>The comparisons \<open><\<close>, \<open><=\<close>, \<open>>\<close> and \<open>===\<close>.\<close>

fun jlt :: "jsnum \<Rightarrow> jsnum \<Rightarrow> bool" where
  "jlt (Fin a) (Fin b) = (a < b)"
| "jlt NaN b = False"
| "jlt a NaN = False"
| "jlt a NInf = False"
| "jlt PInf b = False"
| "jlt a b = True"

definition jgt :: "jsnum \<Rightarrow> jsnum \<Rightarrow> bool" where
  "jgt a b = jlt b a"

definition jeq :: "jsnum \<Rightarrow> jsnum \<Rightarrow> bool" where
  "jeq a b = (a \<noteq> NaN \<and> a = b)"

definition jle :: "jsnum \<Rightarrow> jsnum \<Rightarrow> bool" where
  "jle a b = (jlt a b \<or> jeq a b)"

text \<open>\<open>Math.max\<close> and \<open>Math.min\<close> of two arguments.\<close>

definition jmax :: "jsnum \<Rightarrow> jsnum \<Rightarrow> jsnum" where
  "jmax a b = (if a = NaN \<or> b = NaN then NaN else if jlt a b then b else a)"

definition jmin :: "jsnum \<Rightarrow> jsnum \<Rightarrow> jsnum" where
  "jmin a b = (if a = NaN \<or> b = NaN then NaN else if jlt b a then b else a)"

text \<open>\<open>Math.pow(a, 3)\<close>.\<close>

definition jpow3 :: "jsnum \<Rightarrow> jsnum" where
  "jpow3 a = jmul (jmul a a) a"

text \<open>A number is falsy when it is zero or \<open>NaN\<close>.\<close>

definition truthy :: "jsnum \<Rightarrow> bool" where
  "truthy a = (a \<noteq> Fin 0 \<and> a \<noteq> NaN)"

section \<open>The vectors of three.js\<close>

text \<open>
  \<open>THREE.Vector3\<close> with the methods the simulation calls. \<open>normalize\<close> divides by
  \<open>length() || 1\<close>, and \<open>divideScalar(s)\<close> is \<open>multiplyScalar(1 / s)\<close>.
\<close>

datatype Vector3 = Vector3 (vec_x: jsnum) (vec_y: jsnum) (vec_z: jsnum)

fun vlength :: "Vector3 \<Rightarrow> jsnum" where
  "vlength (Vector3 a b c) = jsqrt (jadd (jadd (jmul a a) (jmul b b)) (jmul c c))"

fun multiplyScalar :: "Vector3 \<Rightarrow> jsnum \<Rightarrow> Vector3" where
  "multiplyScalar (Vector3 a b c) s = Vector3 (jmul a s) (jmul b s) (jmul c s)"

definition divideScalar :: "Vector3 \<Rightarrow> jsnum \<Rightarrow> Vector3" where
  "divideScalar v s = multiplyScalar v (jdiv (Fin 1) s)"

definition normalize :: "Vector3 \<Rightarrow> Vector3" where
  "normalize v = divideScalar v (if truthy (vlength v) then vlength v else Fin 1)"

fun vadd :: "Vector3 \<Rightarrow> Vector3 \<Rightarrow> Vector3" where
  "vadd (Vector3 a b c) (Vector3 d e f) = Vector3 (jadd a d) (jadd b e) (jadd c f)"

fun vsub :: "Vector3 \<Rightarrow> Vector3 \<Rightarrow> Vector3" where
  "vsub (Vector3 a b c) (Vector3 d e f) = Vector3 (jsub a d) (jsub b e) (jsub c f)"

fun cross :: "Vector3 \<Rightarrow> Vector3 \<Rightarrow> Vector3" where
  "cross (Vector3 a b c) (Vector3 d e f) =
     Vector3 (jsub (jmul b f) (jmul c e)) (jsub (jmul c d) (jmul a f)) (jsub (jmul a e) (jmul b d))"

section \<open>Constants (utils/constants.js)\<close>

definition AU_TO_KM :: real where
  "AU_TO_KM = 1495978707 / 10"

definition sun_mu_m3 :: real where
  \<comment> \<open>\<open>GRAVITATIONAL_PARAMETERS.sun\<close>, 1.32712440018e20 m^3/s^2\<close>
  "sun_mu_m3 = 132712440018 * 10 ^ 9"

definition trailLength :: nat where
  \<comment> \<open>\<open>VISUAL_SETTINGS.trailLength\<close>\<close>
  "trailLength = 5000"

section \<open>OrbitalMechanics.calculateOrbitalElements\<close>

record OrbitalElements =
  semiMajorAxis :: jsnum
  eccentricity :: jsnum
  inclination :: jsnum
  periapsis :: jsnum
  apoapsis :: jsnum
  period :: jsnum
  specificEnergy :: jsnum

definition zeroElements :: OrbitalElements where
  "zeroElements = \<lparr>semiMajorAxis = Fin 0, eccentricity = Fin 0, inclination = Fin 0,
     periapsis = Fin 0, apoapsis = Fin 0, period = Fin 0, specificEnergy = Fin 0\<rparr>"

definition safeValue :: "jsnum \<Rightarrow> jsnum" where
  \<comment> \<open>the local helper with its default fallback 0\<close>
  "safeValue v = (if isFinite v then v else Fin 0)"

definition clampUnit :: "jsnum \<Rightarrow> jsnum" where
  \<comment> \<open>\<open>Math.min(1, Math.max(-1, c))\<close>\<close>
  "clampUnit c = jmin (Fin 1) (jmax (Fin (- 1)) c)"

text \<open>
  A missing argument (\<open>undefined\<close> or \<open>null\<close>) is \<open>None\<close>. The body after the two
  guards is \<open>elementsOf\<close>.
\<close>

definition elementsOf :: "Vector3 \<Rightarrow> Vector3 \<Rightarrow> jsnum \<Rightarrow> OrbitalElements" where
  "elementsOf position velocity mu =
    (let r = jmul (vlength position) (Fin AU_TO_KM);
         v = vlength velocity;
         energy = jsub (jdiv (jmul v v) (Fin 2)) (jdiv mu r);
         a = jdiv (jneg mu) (jmul (Fin 2) energy);
         h = cross position velocity;
         eVector = vsub (multiplyScalar (cross velocity h) (jdiv (Fin 1) mu)) (normalize position);
         e = vlength eVector;
         i = jdiv (jmul (jacos (clampUnit (jdiv (vec_z h) (vlength h)))) (Fin 180)) (Fin pi);
         period = (if jgt a (Fin 0)
                   then jdiv (jmul (jmul (Fin 2) (Fin pi)) (jsqrt (jdiv (jpow3 a) mu))) (Fin 86400)
                   else Fin 0)
     in \<lparr>semiMajorAxis = safeValue (jdiv a (Fin AU_TO_KM)),
         eccentricity = safeValue e,
         inclination = safeValue i,
         periapsis = safeValue (jdiv (jmul a (jsub (Fin 1) e)) (Fin AU_TO_KM)),
         apoapsis = safeValue (jdiv (jmul a (jadd (Fin 1) e)) (Fin AU_TO_KM)),
         period = safeValue period,
         specificEnergy = safeValue energy\<rparr>)"

definition calculateOrbitalElements ::
  "Vector3 option \<Rightarrow> Vector3 option \<Rightarrow> jsnum option \<Rightarrow> OrbitalElements" where
  "calculateOrbitalElements position velocity mu =
    (case (position, velocity, mu) of
       (Some p, Some v, Some m) \<Rightarrow>
         if \<not> truthy m \<or> jeq m (Fin 0) then zeroElements
         else let r = jmul (vlength p) (Fin AU_TO_KM); vm = vlength v
              in if jeq r (Fin 0) \<or> \<not> isFinite r \<or> \<not> isFinite vm then zeroElements
                 else elementsOf p v m
     | _ \<Rightarrow> zeroElements)"

section \<open>BaseSpacecraft: integration and trajectory history\<close>

text \<open>
  The fields of \<open>BaseSpacecraft\<close> that \<open>integrateMotion\<close> and \<open>updateTrajectory\<close> read
  or write. \<open>console\<close> collects the messages of \<open>console.warn\<close>. The constructor sets
  \<open>maxTrajectoryPoints\<close> to \<open>VISUAL_SETTINGS.trailLength\<close> and the trajectory to the
  empty array.
\<close>

record BaseSpacecraft =
  name :: string
  position :: Vector3
  velocity :: Vector3
  acceleration :: Vector3
  trajectory :: "Vector3 list"
  maxTrajectoryPoints :: nat
  warnedInvalidPosition :: bool
  console :: "string list"

definition integrateMotion :: "BaseSpacecraft \<Rightarrow> jsnum \<Rightarrow> BaseSpacecraft" where
  "integrateMotion s dt =
    (let deltaV = multiplyScalar (acceleration s) (jdiv dt (Fin 1000));
         s1 = s\<lparr>velocity := vadd (velocity s) deltaV\<rparr>;
         deltaP = multiplyScalar (velocity s1) (jdiv dt (Fin AU_TO_KM))
     in s1\<lparr>position := vadd (position s1) deltaP\<rparr>)"

definition invalidPositionMessage :: "string \<Rightarrow> string" where
  "invalidPositionMessage n =
     ''Invalid position detected for '' @ n @ '', skipping trajectory update''"

text \<open>
  \<open>updateTrajectory\<close> up to the last write to \<open>this.trajectory\<close>; what follows in the
  source copies the points into the line geometry and changes no field of the record.
\<close>

definition updateTrajectory :: "BaseSpacecraft \<Rightarrow> BaseSpacecraft" where
  "updateTrajectory s =
    (if \<not> isFinite (vec_x (position s)) \<or> \<not> isFinite (vec_y (position s))
        \<or> \<not> isFinite (vec_z (position s))
     then (if \<not> warnedInvalidPosition s
           then s\<lparr>console := console s @ [invalidPositionMessage (name s)],
                  warnedInvalidPosition := True\<rparr>
           else s)
     else
       (let s1 = (if warnedInvalidPosition s then s\<lparr>warnedInvalidPosition := False\<rparr> else s);
            s2 = s1\<lparr>trajectory := trajectory s1 @ [position s1]\<rparr>
        in if length (trajectory s2) > maxTrajectoryPoints s2
           then s2\<lparr>trajectory := tl (trajectory s2)\<rparr>
           else s2))"

text \<open>
  The steps of \<open>update\<close> that write the position and the trajectory: the total
  acceleration of the tick (gravity of the bodies and thrust) is an input, then
  \<open>integrateMotion\<close> and \<open>updateTrajectory\<close> run in this order. \<open>ticks\<close> runs a
  sequence of such steps.
\<close>

definition updateStep :: "BaseSpacecraft \<Rightarrow> Vector3 \<times> jsnum \<Rightarrow> BaseSpacecraft" where
  "updateStep s tick = updateTrajectory (integrateMotion (s\<lparr>acceleration := fst tick\<rparr>) (snd tick))"

fun ticks :: "BaseSpacecraft \<Rightarrow> (Vector3 \<times> jsnum) list \<Rightarrow> BaseSpacecraft" where
  "ticks s [] = s"
| "ticks s (t # ts) = ticks (updateStep s t) ts"

definition finitePosition :: "BaseSpacecraft \<Rightarrow> bool" where
  \<comment> \<open>the test of \<open>updateTrajectory\<close> on the three components of the position\<close>
  "finitePosition s = (isFinite (vec_x (position s)) \<and> isFinite (vec_y (position s))
     \<and> isFinite (vec_z (position s)))"

section \<open>SpacecraftSystems: attitude control and propulsion\<close>

text \<open>
  The methods of \<open>SpacecraftSystems\<close> modelled here test no number for finiteness, and
  their numbers are modelled as reals: finite doubles with exact arithmetic. The
  constructor's \<open>config.isp || 350\<close> makes the specific impulse non-zero, so the division
  in \<open>calculateFuelRequired\<close> is by a non-zero number.
\<close>

datatype RVector3 = RVector3 real real real

fun rlength :: "RVector3 \<Rightarrow> real" where
  "rlength (RVector3 a b c) = sqrt (a * a + b * b + c * c)"

fun rmultiplyScalar :: "RVector3 \<Rightarrow> real \<Rightarrow> RVector3" where
  "rmultiplyScalar (RVector3 a b c) s = RVector3 (a * s) (b * s) (c * s)"

fun radd :: "RVector3 \<Rightarrow> RVector3 \<Rightarrow> RVector3" where
  "radd (RVector3 a b c) (RVector3 d e f) = RVector3 (a + d) (b + e) (c + f)"

definition rnormalize :: "RVector3 \<Rightarrow> RVector3" where
  \<comment> \<open>\<open>divideScalar(length() || 1)\<close>\<close>
  "rnormalize v = rmultiplyScalar v (1 / (if rlength v \<noteq> 0 then rlength v else 1))"

datatype Quaternion = Quaternion real real real real

fun setFromAxisAngle :: "RVector3 \<Rightarrow> real \<Rightarrow> Quaternion" where
  "setFromAxisAngle (RVector3 a b c) angle =
     (let halfAngle = angle / 2; s = sin halfAngle
      in Quaternion (a * s) (b * s) (c * s) (cos halfAngle))"

fun qmultiply :: "Quaternion \<Rightarrow> Quaternion \<Rightarrow> Quaternion" where
  "qmultiply (Quaternion qax qay qaz qaw) (Quaternion qbx qby qbz qbw) =
     Quaternion (qax * qbw + qaw * qbx + qay * qbz - qaz * qby)
                (qay * qbw + qaw * qby + qaz * qbx - qax * qbz)
                (qaz * qbw + qaw * qbz + qax * qby - qay * qbx)
                (qaw * qbw - qax * qbx - qay * qby - qaz * qbz)"

text \<open>
  The fields the modelled methods read or write: \<open>power.batteryCharge\<close>,
  \<open>attitude.orientation\<close>, \<open>attitude.angularVelocity\<close>,
  \<open>attitude.reactionWheels.momentum\<close> and \<open>.maxMomentum\<close>, \<open>attitude.rcs.fuel\<close>, and
  \<open>propulsion.main.fuel\<close>, \<open>.specificImpulse\<close>, \<open>.throttle\<close>, \<open>.ignitions\<close> and
  \<open>.ignitionsUsed\<close>.
\<close>

record SpacecraftSystems =
  batteryCharge :: real
  orientation :: Quaternion
  angularVelocity :: RVector3
  momentum :: RVector3
  maxMomentum :: real
  rcsFuel :: real
  mainFuel :: real
  specificImpulse :: real
  throttle :: real
  ignitions :: int
  ignitionsUsed :: int

definition desaturateReactionWheels :: "SpacecraftSystems \<Rightarrow> real \<Rightarrow> SpacecraftSystems" where
  "desaturateReactionWheels s deltaTime =
    (if rcsFuel s \<le> 0 then s
     else (let fuelUsed = (1 / 100) * deltaTime
           in s\<lparr>rcsFuel := rcsFuel s - fuelUsed,
                momentum := rmultiplyScalar (momentum s) (99 / 100)\<rparr>))"

definition applyTorque :: "SpacecraftSystems \<Rightarrow> RVector3 \<Rightarrow> real \<Rightarrow> SpacecraftSystems" where
  "applyTorque s torque deltaTime =
    (let totalMomentum = rlength (momentum s)
     in if totalMomentum < maxMomentum s * (8 / 10)
        then (let s1 = s\<lparr>momentum := radd (momentum s) (rmultiplyScalar torque deltaTime)\<rparr>;
                  s2 = s1\<lparr>angularVelocity := rmultiplyScalar torque (1 / 10)\<rparr>;
                  deltaRotation = setFromAxisAngle (rnormalize (angularVelocity s2))
                                    (rlength (angularVelocity s2) * deltaTime)
              in s2\<lparr>orientation := qmultiply (orientation s2) deltaRotation\<rparr>)
        else desaturateReactionWheels s deltaTime)"

text \<open>A sequence of attitude-control updates, each with its torque and its time step.\<close>

fun applyTorques :: "SpacecraftSystems \<Rightarrow> (RVector3 \<times> real) list \<Rightarrow> SpacecraftSystems" where
  "applyTorques s [] = s"
| "applyTorques s (u # us) = applyTorques (applyTorque s (fst u) (snd u)) us"

definition calculateFuelRequired :: "SpacecraftSystems \<Rightarrow> real \<Rightarrow> real \<Rightarrow> real" where
  "calculateFuelRequired s deltaV dryMass =
    (let exhaustVelocity = specificImpulse s * (981 / 100);
         massRatio = exp (deltaV * 1000 / exhaustVelocity);
         fuelMass = dryMass * (massRatio - 1)
     in fuelMass)"

text \<open>
  \<open>executeBurn\<close> takes the delta-V as a number or as a vector, and of the spacecraft it
  reads the mass. It returns its result object, the systems after the call, and the delay
  in milliseconds of the timer it has set to close the throttle, if any.
\<close>

datatype DeltaV = Magnitude real | Vector RVector3

datatype BurnResult = Failure string | Success real

definition executeBurn ::
  "SpacecraftSystems \<Rightarrow> DeltaV \<Rightarrow> real \<Rightarrow> real \<Rightarrow> BurnResult \<times> SpacecraftSystems \<times> real option" where
  "executeBurn s deltaV duration spacecraftMass =
    (let deltaVMagnitude = (case deltaV of Magnitude m \<Rightarrow> m | Vector v \<Rightarrow> rlength v)
     in if ignitionsUsed s \<ge> ignitions s then (Failure ''No ignitions remaining'', s, None)
        else (let fuelRequired = calculateFuelRequired s deltaVMagnitude spacecraftMass
              in if fuelRequired > mainFuel s then (Failure ''Insufficient fuel'', s, None)
                 else if batteryCharge s < 10 then (Failure ''Insufficient power'', s, None)
                 else (Success fuelRequired,
                       s\<lparr>throttle := 1, ignitionsUsed := ignitionsUsed s + 1\<rparr>,
                       Some (duration * 1000))))"

text \<open>The systems the constructor builds from an empty configuration.\<close>

definition defaultSystems :: SpacecraftSystems where
  "defaultSystems = \<lparr>batteryCharge = 100, orientation = Quaternion 0 0 0 1,
     angularVelocity = RVector3 0 0 0, momentum = RVector3 0 0 0, maxMomentum = 50,
     rcsFuel = 50, mainFuel = 500, specificImpulse = 350, throttle = 0,
     ignitions = 10, ignitionsUsed = 0\<rparr>"

section \<open>Double-precision arithmetic\<close>

text \<open>
  The claims on the fuel calculators, on the Hohmann transfer and on the orbit
  propagator speak of values that are zero, finite or accurate, and of a loop that ends;
  there the rounding and the overflow of doubles matter, and the arithmetic of these
  methods is modelled with both. A platform gives the rounding of a real number to a
  double (\<open>fl\<close>) and the doubles its library returns for \<open>Math.exp\<close>, \<open>Math.sin\<close>,
  \<open>Math.cos\<close> and \<open>Math.pow(x, 3)\<close> on a finite argument. An operation on finite
  operands rounds the exact result and gives an infinity when the rounded result is past
  the largest double; on the special values it is the operation of the first section.
  Underflow and the sign of zero are not modelled.
\<close>

record platform =
  fl :: "real \<Rightarrow> real"
  lexp :: "real \<Rightarrow> real"
  lsin :: "real \<Rightarrow> real"
  lcos :: "real \<Rightarrow> real"
  lcube :: "real \<Rightarrow> real"

definition maxDouble :: real where
  \<comment> \<open>\<open>Number.MAX_VALUE\<close>\<close>
  "maxDouble = (2 ^ 53 - 1) * 2 ^ 971"

definition unitRoundoff :: real where
  "unitRoundoff = 1 / 2 ^ 53"

definition finish :: "real \<Rightarrow> jsnum" where
  "finish y = (if maxDouble < y then PInf else if y < - maxDouble then NInf else Fin y)"

definition rounded :: "platform \<Rightarrow> real \<Rightarrow> jsnum" where
  "rounded pf x = finish (fl pf x)"

text \<open>A decimal literal of the source, and \<open>Math.PI\<close>, is the double next to its value.\<close>

definition literal :: "platform \<Rightarrow> real \<Rightarrow> jsnum" where
  "literal pf c = Fin (fl pf c)"

fun padd :: "platform \<Rightarrow> jsnum \<Rightarrow> jsnum \<Rightarrow> jsnum" where
  "padd pf (Fin a) (Fin b) = rounded pf (a + b)"
| "padd pf a b = jadd a b"

definition psub :: "platform \<Rightarrow> jsnum \<Rightarrow> jsnum \<Rightarrow> jsnum" where
  "psub pf a b = padd pf a (jneg b)"

fun pmul :: "platform \<Rightarrow> jsnum \<Rightarrow> jsnum \<Rightarrow> jsnum" where
  "pmul pf (Fin a) (Fin b) = rounded pf (a * b)"
| "pmul pf a b = jmul a b"

fun pdiv :: "platform \<Rightarrow> jsnum \<Rightarrow> jsnum \<Rightarrow> jsnum" where
  "pdiv pf (Fin a) (Fin b) = (if b = 0 then inf_of_sign a else rounded pf (a / b))"
| "pdiv pf a b = jdiv a b"

fun psqrt :: "platform \<Rightarrow> jsnum \<Rightarrow> jsnum" where
  "psqrt pf (Fin a) = (if a < 0 then NaN else rounded pf (sqrt a))"
| "psqrt pf a = jsqrt a"

fun pexp :: "platform \<Rightarrow> jsnum \<Rightarrow> jsnum" where
  "pexp pf (Fin a) = finish (lexp pf a)"
| "pexp pf a = jexp a"



fun pcube :: "platform \<Rightarrow> jsnum \<Rightarrow> jsnum" where
  "pcube pf (Fin a) = finish (lcube pf a)"
| "pcube pf a = jpow3 a"

text \<open>
  The standard model of floating-point arithmetic: a rounding has a relative error of
  at most \<open>2^-53\<close>, the library's exponential and cube are within twice that of the
  exact value, and the exponential is 1 at 0 and at least 1 on a non-negative argument.
  Nothing is assumed of the sine and the cosine.
\<close>

definition ieee :: "platform \<Rightarrow> bool" where
  "ieee pf \<longleftrightarrow>
     (\<forall>x. \<bar>fl pf x - x\<bar> \<le> unitRoundoff * \<bar>x\<bar>)
     \<and> (\<forall>x. \<bar>lexp pf x - exp x\<bar> \<le> 2 * unitRoundoff * exp x)
     \<and> lexp pf 0 = 1
     \<and> (\<forall>x. 0 \<le> x \<longrightarrow> 1 \<le> lexp pf x)
     \<and> (\<forall>x. \<bar>lcube pf x - x ^ 3\<bar> \<le> 2 * unitRoundoff * \<bar>x ^ 3\<bar>)"

text \<open>A computed value \<open>x\<close> within \<open>k\<close> units of relative rounding error of \<open>X\<close>.\<close>

definition closeTo :: "real \<Rightarrow> real \<Rightarrow> real \<Rightarrow> bool" where
  "closeTo k x X \<longleftrightarrow> \<bar>x - X\<bar> \<le> k * unitRoundoff * \<bar>X\<bar>"








section \<open>The fuel calculators in double-precision arithmetic\<close>

text \<open>
  \<open>SpacecraftSystems.calculateFuelRequired\<close> once more, now with the rounding and the
  overflow of each operation; \<open>executeBurn\<close> above only compares its result.
\<close>

definition systems_calculateFuelRequired ::
  "platform \<Rightarrow> SpacecraftSystems \<Rightarrow> jsnum \<Rightarrow> jsnum \<Rightarrow> jsnum" where
  "systems_calculateFuelRequired pf s deltaV dryMass =
    (let exhaustVelocity = pmul pf (Fin (specificImpulse s)) (literal pf (981 / 100));
         massRatio = pexp pf (pdiv pf (pmul pf deltaV (Fin 1000)) exhaustVelocity);
         fuelMass = pmul pf dryMass (psub pf massRatio (Fin 1))
     in fuelMass)"

text \<open>
  \<open>TrajectoryPlanner.calculateFuelRequired\<close>. The spacecraft type selects the specific
  impulse and the dry mass; for \<open>custom\<close> the two are what \<open>parseFloat\<close> reads from the
  form, any number or \<open>NaN\<close>; every other string takes the default branch.
\<close>

datatype SpacecraftType = Chemical | Ion | Nuclear | Custom jsnum jsnum | OtherType

fun planner_isp :: "SpacecraftType \<Rightarrow> jsnum" where
  "planner_isp Chemical = Fin 450"
| "planner_isp Ion = Fin 3000"
| "planner_isp Nuclear = Fin 900"
| "planner_isp (Custom i d) = i"
| "planner_isp OtherType = Fin 450"

fun planner_dryMass :: "SpacecraftType \<Rightarrow> jsnum" where
  "planner_dryMass Chemical = Fin 1000"
| "planner_dryMass Ion = Fin 800"
| "planner_dryMass Nuclear = Fin 2000"
| "planner_dryMass (Custom i d) = d"
| "planner_dryMass OtherType = Fin 1000"

definition planner_massRatio :: "platform \<Rightarrow> jsnum \<Rightarrow> SpacecraftType \<Rightarrow> jsnum" where
  "planner_massRatio pf deltaV spacecraftType =
    (let exhaustVelocity =
           pdiv pf (pmul pf (planner_isp spacecraftType) (literal pf (981 / 100))) (Fin 1000)
     in pexp pf (pdiv pf deltaV exhaustVelocity))"

definition planner_calculateFuelRequired :: "platform \<Rightarrow> jsnum \<Rightarrow> SpacecraftType \<Rightarrow> jsnum" where
  "planner_calculateFuelRequired pf deltaV spacecraftType =
    (let massRatio = planner_massRatio pf deltaV spacecraftType
     in if \<not> isFinite massRatio \<or> jle massRatio (Fin 1) then Fin 0
        else (let fuelMass = pmul pf (planner_dryMass spacecraftType) (psub pf massRatio (Fin 1))
              in fuelMass))"

text \<open>
  The exact value the two calculators approximate: the mass passed in times
  \<open>e^(dV / v_exhaust) - 1\<close>, with the delta-V in km/s and the specific impulse in
  seconds.
\<close>

definition rocketFuel :: "real \<Rightarrow> real \<Rightarrow> real \<Rightarrow> real" where
  "rocketFuel isp m dV = m * (exp (dV * 1000 / (isp * (981 / 100))) - 1)"

section \<open>OrbitalMechanics.calculateHohmannTransfer\<close>

record HohmannTransfer =
  departure :: jsnum
  arrival :: jsnum
  total :: jsnum
  transferTime :: jsnum

definition calculateHohmannTransfer :: "platform \<Rightarrow> jsnum \<Rightarrow> jsnum \<Rightarrow> HohmannTransfer" where
  "calculateHohmannTransfer pf r1 r2 =
    (let mu = pdiv pf (literal pf sun_mu_m3) (Fin (10 ^ 9));
         v1 = psqrt pf (pdiv pf mu r1);
         a_transfer = pdiv pf (padd pf r1 r2) (Fin 2);
         v_transfer1 = psqrt pf (pmul pf mu (psub pf (pdiv pf (Fin 2) r1) (pdiv pf (Fin 1) a_transfer)));
         v_transfer2 = psqrt pf (pmul pf mu (psub pf (pdiv pf (Fin 2) r2) (pdiv pf (Fin 1) a_transfer)));
         v2 = psqrt pf (pdiv pf mu r2);
         dv1 = psub pf v_transfer1 v1;
         dv2 = psub pf v2 v_transfer2
     in \<lparr>departure = dv1, arrival = dv2,
         total = padd pf (jabs dv1) (jabs dv2),
         transferTime =
           pdiv pf (pmul pf (literal pf pi) (psqrt pf (pdiv pf (pcube pf a_transfer) mu)))
                (Fin 86400)\<rparr>)"

text \<open>
  The exact values the calculator approximates on positive radii: the solar
  gravitational parameter in km^3/s^2, the speed on the circular orbit of radius \<open>r\<close> km
  around the sun and its period in days, the total delta-V and the transfer time.
\<close>

definition mu_sun :: real where
  "mu_sun = sun_mu_m3 / 10 ^ 9"

definition circularSpeed :: "real \<Rightarrow> real" where
  "circularSpeed r = sqrt (mu_sun / r)"

definition circularPeriodDays :: "real \<Rightarrow> real" where
  "circularPeriodDays r = 2 * pi * sqrt (r ^ 3 / mu_sun) / 86400"

definition hohmannTotal :: "real \<Rightarrow> real \<Rightarrow> real" where
  "hohmannTotal r1 r2 =
     \<bar>sqrt (mu_sun * (2 / r1 - 1 / ((r1 + r2) / 2))) - sqrt (mu_sun / r1)\<bar>
     + \<bar>sqrt (mu_sun / r2) - sqrt (mu_sun * (2 / r2 - 1 / ((r1 + r2) / 2)))\<bar>"

definition hohmannTime :: "real \<Rightarrow> real \<Rightarrow> real" where
  "hohmannTime r1 r2 = pi * sqrt (((r1 + r2) / 2) ^ 3 / mu_sun) / 86400"

definition hohmannShape :: "real \<Rightarrow> real" where
  \<comment> \<open>the total delta-V in units of the circular speed at \<open>r1\<close>, as a function of \<open>sqrt (r1 / r2)\<close>\<close>
  "hohmannShape t = sqrt 2 * (1 - t\<^sup>2) / sqrt (1 + t\<^sup>2) + t - 1"

section \<open>ManoeuvreNode: the orbit propagator\<close>








section \<open>Properties of the orbital elements\<close>

lemma safeValue_finite: "isFinite (safeValue v)"
  by (simp add: safeValue_def)

lemma clampUnit_cases: "clampUnit c = NaN \<or> (\<exists>r. clampUnit c = Fin r \<and> - 1 \<le> r \<and> r \<le> 1)"
  by (cases c) (auto simp: clampUnit_def jmax_def jmin_def)

lemma zeroElements_fields:
  "semiMajorAxis zeroElements = Fin 0" "eccentricity zeroElements = Fin 0"
  "inclination zeroElements = Fin 0" "periapsis zeroElements = Fin 0"
  "apoapsis zeroElements = Fin 0" "period zeroElements = Fin 0"
  "specificEnergy zeroElements = Fin 0"
  by (simp_all add: zeroElements_def)

lemma calc_cases:
  "calculateOrbitalElements pos vel mu = zeroElements \<or>
   (\<exists>p v m. calculateOrbitalElements pos vel mu = elementsOf p v m)"
  by (auto simp: calculateOrbitalElements_def Let_def split: option.splits)

lemma elementsOf_fields_finite:
  "isFinite (semiMajorAxis (elementsOf p v m))" "isFinite (eccentricity (elementsOf p v m))"
  "isFinite (inclination (elementsOf p v m))" "isFinite (periapsis (elementsOf p v m))"
  "isFinite (apoapsis (elementsOf p v m))" "isFinite (period (elementsOf p v m))"
  "isFinite (specificEnergy (elementsOf p v m))"
  by (simp_all add: elementsOf_def Let_def safeValue_finite)

lemma inclination_elementsOf:
  "inclination (elementsOf p v m) =
     safeValue (jdiv (jmul (jacos (clampUnit (jdiv (vec_z (cross p v)) (vlength (cross p v)))))
        (Fin 180)) (Fin pi))"
  by (simp add: elementsOf_def Let_def)

lemma degrees_range:
  "\<exists>d. safeValue (jdiv (jmul (jacos (clampUnit c)) (Fin 180)) (Fin pi)) = Fin d \<and> 0 \<le> d \<and> d \<le> 180"
proof -
  consider "clampUnit c = NaN" | r where "clampUnit c = Fin r" "- 1 \<le> r" "r \<le> 1"
    using clampUnit_cases by blast
  then show ?thesis
  proof cases
    case 1
    then show ?thesis by (simp add: safeValue_def)
  next
    case 2
    have "0 \<le> arccos r" "arccos r \<le> pi"
      using 2 by (simp_all add: arccos_lbound arccos_ubound)
    then have "0 \<le> arccos r * 180 / pi" "arccos r * 180 / pi \<le> 180"
      by (simp_all add: field_simps)
    with 2 show ?thesis by (simp add: safeValue_def)
  qed
qed

text \<open>
  Claim C6. \<open>calculateOrbitalElements\<close> returns the all-zero struct when an argument is
  missing, when \<open>mu\<close> is zero, when the position has length zero and when the length of
  the position or of the velocity is not finite. For every input each of the seven
  fields of the result is finite, the inclination is the guarded value of
  \<open>acos\<close> applied to the clamped cosine, the clamped cosine is \<open>NaN\<close> or lies in
  \<open>[-1, 1]\<close>, and the inclination lies between 0 and 180 degrees.
\<close>

theorem calculateOrbitalElements_degenerate_and_finite:
  fixes pos vel :: "Vector3 option" and mu :: "jsnum option"
  defines "el \<equiv> calculateOrbitalElements pos vel mu"
  shows "((pos = None \<or> vel = None \<or> mu = None \<or> mu = Some (Fin 0)
            \<or> (\<exists>p. pos = Some p \<and> (vlength p = Fin 0 \<or> \<not> isFinite (vlength p)))
            \<or> (\<exists>v. vel = Some v \<and> \<not> isFinite (vlength v)))
           \<longrightarrow> el = zeroElements)
         \<and> isFinite (semiMajorAxis el) \<and> isFinite (eccentricity el) \<and> isFinite (inclination el)
         \<and> isFinite (periapsis el) \<and> isFinite (apoapsis el) \<and> isFinite (period el)
         \<and> isFinite (specificEnergy el)
         \<and> (el = zeroElements \<or> (\<exists>p v. pos = Some p \<and> vel = Some v \<and>
               inclination el = safeValue (jdiv (jmul (jacos (clampUnit
                  (jdiv (vec_z (cross p v)) (vlength (cross p v))))) (Fin 180)) (Fin pi))))
         \<and> (\<forall>c. clampUnit c = NaN \<or> (\<exists>r. clampUnit c = Fin r \<and> - 1 \<le> r \<and> r \<le> 1))
         \<and> (\<exists>d. inclination el = Fin d \<and> 0 \<le> d \<and> d \<le> 180)"
proof -
  have deg: "(pos = None \<or> vel = None \<or> mu = None \<or> mu = Some (Fin 0)
            \<or> (\<exists>p. pos = Some p \<and> (vlength p = Fin 0 \<or> \<not> isFinite (vlength p)))
            \<or> (\<exists>v. vel = Some v \<and> \<not> isFinite (vlength v)))
           \<longrightarrow> el = zeroElements"
  proof
    assume h: "pos = None \<or> vel = None \<or> mu = None \<or> mu = Some (Fin 0)
            \<or> (\<exists>p. pos = Some p \<and> (vlength p = Fin 0 \<or> \<not> isFinite (vlength p)))
            \<or> (\<exists>v. vel = Some v \<and> \<not> isFinite (vlength v))"
    have nf: "\<not> isFinite (jmul a (Fin AU_TO_KM))" if "\<not> isFinite a" for a
      using that by (cases a) (simp_all add: AU_TO_KM_def inf_of_sign_def)
    show "el = zeroElements"
      using h unfolding el_def calculateOrbitalElements_def
      by (auto simp: Let_def truthy_def jeq_def nf split: option.splits)
  qed
  have fin: "isFinite (semiMajorAxis el)" "isFinite (eccentricity el)" "isFinite (inclination el)"
    "isFinite (periapsis el)" "isFinite (apoapsis el)" "isFinite (period el)"
    "isFinite (specificEnergy el)"
    using calc_cases [of pos vel mu] unfolding el_def
    by (auto simp: zeroElements_fields elementsOf_fields_finite)
  have inc: "el = zeroElements \<or> (\<exists>p v. pos = Some p \<and> vel = Some v \<and>
               inclination el = safeValue (jdiv (jmul (jacos (clampUnit
                  (jdiv (vec_z (cross p v)) (vlength (cross p v))))) (Fin 180)) (Fin pi)))"
    unfolding el_def calculateOrbitalElements_def
    by (auto simp: Let_def inclination_elementsOf split: option.splits)
  have rng: "\<exists>d. inclination el = Fin d \<and> 0 \<le> d \<and> d \<le> 180"
    using inc degrees_range by (auto simp: zeroElements_fields)
  show ?thesis using deg fin inc rng clampUnit_cases by blast
qed

theorem calculateOrbitalElements_degenerate_and_finite_witness:
  "calculateOrbitalElements (Some (Vector3 (Fin 0) (Fin 0) (Fin 0)))
      (Some (Vector3 (Fin 0) (Fin 30) (Fin 0))) (Some (Fin 132712440018)) = zeroElements
   \<and> isFinite (semiMajorAxis (calculateOrbitalElements (Some (Vector3 (Fin 1) (Fin 0) (Fin 0)))
      (Some (Vector3 (Fin 0) (Fin 30) (Fin 0))) (Some (Fin 132712440018))))"
  using calculateOrbitalElements_degenerate_and_finite
      [of "Some (Vector3 (Fin 0) (Fin 0) (Fin 0))" "Some (Vector3 (Fin 0) (Fin 30) (Fin 0))"
          "Some (Fin 132712440018)"]
    calculateOrbitalElements_degenerate_and_finite
      [of "Some (Vector3 (Fin 1) (Fin 0) (Fin 0))" "Some (Vector3 (Fin 0) (Fin 30) (Fin 0))"
          "Some (Fin 132712440018)"]
  by simp

section \<open>Properties of the integrator and of the trajectory history\<close>

lemma updateTrajectory_max [simp]: "maxTrajectoryPoints (updateTrajectory s) = maxTrajectoryPoints s"
  by (simp add: updateTrajectory_def Let_def)

lemma integrateMotion_frame [simp]:
  "maxTrajectoryPoints (integrateMotion s dt) = maxTrajectoryPoints s"
  "trajectory (integrateMotion s dt) = trajectory s"
  "console (integrateMotion s dt) = console s"
  "warnedInvalidPosition (integrateMotion s dt) = warnedInvalidPosition s"
  by (simp_all add: integrateMotion_def Let_def)

lemma updateTrajectory_motion [simp]:
  "position (updateTrajectory s) = position s" "velocity (updateTrajectory s) = velocity s"
  by (simp_all add: updateTrajectory_def Let_def)

lemma updateTrajectory_bounded:
  "length (trajectory s) \<le> maxTrajectoryPoints s \<Longrightarrow>
   length (trajectory (updateTrajectory s)) \<le> maxTrajectoryPoints s"
  by (auto simp: updateTrajectory_def Let_def)

lemma updateStep_bounded:
  "length (trajectory s) \<le> maxTrajectoryPoints s \<Longrightarrow>
   length (trajectory (updateStep s t)) \<le> maxTrajectoryPoints (updateStep s t)"
  using updateTrajectory_bounded [of "integrateMotion (s\<lparr>acceleration := fst t\<rparr>) (snd t)"]
  by (simp add: updateStep_def)

lemma ticks_bounded:
  "length (trajectory s) \<le> maxTrajectoryPoints s \<Longrightarrow>
   length (trajectory (ticks s ts)) \<le> maxTrajectoryPoints (ticks s ts)"
  by (induction ts arbitrary: s) (simp_all add: updateStep_bounded)

lemma ticks_max: "maxTrajectoryPoints (ticks s ts) = maxTrajectoryPoints s"
  by (induction ts arbitrary: s) (simp_all add: updateStep_def)

text \<open>
  Claim C8. The trajectory history is a bounded first-in first-out buffer: if its length
  is at most \<open>maxTrajectoryPoints\<close>, it stays so after \<open>updateTrajectory\<close> and after
  every sequence of ticks; below capacity a finite position is appended, at capacity the
  oldest point is dropped and the position appended; the history changes only when the
  position is finite in its three components; a non-finite position leaves the history
  as it is, sets the warning flag, logs one warning if the flag was not set and none if
  it was (so a second call in a row logs nothing), and the tick still integrates the
  motion.
\<close>

theorem trajectory_ring_buffer:
  "(length (trajectory s) \<le> maxTrajectoryPoints s \<longrightarrow>
      length (trajectory (ticks s ts)) \<le> maxTrajectoryPoints s
      \<and> length (trajectory (updateTrajectory s)) \<le> maxTrajectoryPoints s)
   \<and> (finitePosition s \<and> length (trajectory s) < maxTrajectoryPoints s \<longrightarrow>
        trajectory (updateTrajectory s) = trajectory s @ [position s])
   \<and> (finitePosition s \<and> length (trajectory s) = maxTrajectoryPoints s \<and> trajectory s \<noteq> [] \<longrightarrow>
        trajectory (updateTrajectory s) = tl (trajectory s) @ [position s])
   \<and> (trajectory (updateTrajectory s) \<noteq> trajectory s \<longrightarrow> finitePosition s)
   \<and> (\<not> finitePosition s \<longrightarrow>
        trajectory (updateTrajectory s) = trajectory s
        \<and> warnedInvalidPosition (updateTrajectory s)
        \<and> console (updateTrajectory s) =
            (if warnedInvalidPosition s then console s
             else console s @ [invalidPositionMessage (name s)])
        \<and> console (updateTrajectory (updateTrajectory s)) = console (updateTrajectory s))
   \<and> position (updateStep s t) = position (integrateMotion (s\<lparr>acceleration := fst t\<rparr>) (snd t))
   \<and> velocity (updateStep s t) = velocity (integrateMotion (s\<lparr>acceleration := fst t\<rparr>) (snd t))"
proof -
  have a: "length (trajectory s) \<le> maxTrajectoryPoints s \<longrightarrow>
      length (trajectory (ticks s ts)) \<le> maxTrajectoryPoints s
      \<and> length (trajectory (updateTrajectory s)) \<le> maxTrajectoryPoints s"
    using ticks_bounded [of s ts] updateTrajectory_bounded [of s] by (simp add: ticks_max)
  have b: "finitePosition s \<and> length (trajectory s) < maxTrajectoryPoints s \<longrightarrow>
        trajectory (updateTrajectory s) = trajectory s @ [position s]"
    by (auto simp: updateTrajectory_def Let_def finitePosition_def)
  have c: "finitePosition s \<and> length (trajectory s) = maxTrajectoryPoints s \<and> trajectory s \<noteq> [] \<longrightarrow>
        trajectory (updateTrajectory s) = tl (trajectory s) @ [position s]"
    by (auto simp: updateTrajectory_def Let_def finitePosition_def)
  have d: "trajectory (updateTrajectory s) \<noteq> trajectory s \<longrightarrow> finitePosition s"
    by (auto simp: updateTrajectory_def Let_def finitePosition_def)
  have e: "\<not> finitePosition s \<longrightarrow>
        trajectory (updateTrajectory s) = trajectory s
        \<and> warnedInvalidPosition (updateTrajectory s)
        \<and> console (updateTrajectory s) =
            (if warnedInvalidPosition s then console s
             else console s @ [invalidPositionMessage (name s)])
        \<and> console (updateTrajectory (updateTrajectory s)) = console (updateTrajectory s)"
    by (auto simp: updateTrajectory_def Let_def finitePosition_def)
  have f: "position (updateStep s t) = position (integrateMotion (s\<lparr>acceleration := fst t\<rparr>) (snd t))"
    "velocity (updateStep s t) = velocity (integrateMotion (s\<lparr>acceleration := fst t\<rparr>) (snd t))"
    by (simp_all add: updateStep_def)
  show ?thesis using a b c d e f by blast
qed

theorem trajectory_ring_buffer_witness:
  "trajectory (updateTrajectory \<lparr>name = ''probe'', position = Vector3 (Fin 3) (Fin 0) (Fin 0),
      velocity = Vector3 (Fin 0) (Fin 30) (Fin 0), acceleration = Vector3 (Fin 0) (Fin 0) (Fin 0),
      trajectory = [Vector3 (Fin 1) (Fin 0) (Fin 0), Vector3 (Fin 2) (Fin 0) (Fin 0)],
      maxTrajectoryPoints = 2, warnedInvalidPosition = False, console = []\<rparr>)
     = [Vector3 (Fin 2) (Fin 0) (Fin 0), Vector3 (Fin 3) (Fin 0) (Fin 0)]
   \<and> console (updateTrajectory \<lparr>name = ''probe'', position = Vector3 NaN (Fin 0) (Fin 0),
      velocity = Vector3 (Fin 0) (Fin 30) (Fin 0), acceleration = Vector3 (Fin 0) (Fin 0) (Fin 0),
      trajectory = [Vector3 (Fin 1) (Fin 0) (Fin 0), Vector3 (Fin 2) (Fin 0) (Fin 0)],
      maxTrajectoryPoints = 2, warnedInvalidPosition = False, console = []\<rparr>)
     = [invalidPositionMessage ''probe'']"
  using trajectory_ring_buffer [of "\<lparr>name = ''probe'', position = Vector3 (Fin 3) (Fin 0) (Fin 0),
      velocity = Vector3 (Fin 0) (Fin 30) (Fin 0), acceleration = Vector3 (Fin 0) (Fin 0) (Fin 0),
      trajectory = [Vector3 (Fin 1) (Fin 0) (Fin 0), Vector3 (Fin 2) (Fin 0) (Fin 0)],
      maxTrajectoryPoints = 2, warnedInvalidPosition = False, console = []\<rparr>" "[]"]
    trajectory_ring_buffer [of "\<lparr>name = ''probe'', position = Vector3 NaN (Fin 0) (Fin 0),
      velocity = Vector3 (Fin 0) (Fin 30) (Fin 0), acceleration = Vector3 (Fin 0) (Fin 0) (Fin 0),
      trajectory = [Vector3 (Fin 1) (Fin 0) (Fin 0), Vector3 (Fin 2) (Fin 0) (Fin 0)],
      maxTrajectoryPoints = 2, warnedInvalidPosition = False, console = []\<rparr>" "[]"]
  by (simp add: finitePosition_def)

text \<open>
  Claim C5. One integration step adds acceleration times \<open>dt / 1000\<close> to the velocity and
  then adds the updated velocity times \<open>dt / AU_TO_KM\<close> to the position; on finite numbers
  this is \<open>v' = v + a dt / 1000\<close> and \<open>p' = p + v' dt / AU_TO_KM\<close> in each component
  (semi-implicit Euler: the position update uses the new velocity).
\<close>

theorem integrateMotion_semi_implicit_euler:
  "velocity (integrateMotion s dt) =
      vadd (velocity s) (multiplyScalar (acceleration s) (jdiv dt (Fin 1000)))
   \<and> position (integrateMotion s dt) =
      vadd (position s) (multiplyScalar (velocity (integrateMotion s dt)) (jdiv dt (Fin AU_TO_KM)))
   \<and> integrateMotion
        (s\<lparr>position := Vector3 (Fin px) (Fin py) (Fin pz),
           velocity := Vector3 (Fin vx) (Fin vy) (Fin vz),
           acceleration := Vector3 (Fin ax) (Fin ay) (Fin az)\<rparr>) (Fin d)
      = s\<lparr>position := Vector3 (Fin (px + (vx + ax * d / 1000) * d / AU_TO_KM))
                               (Fin (py + (vy + ay * d / 1000) * d / AU_TO_KM))
                               (Fin (pz + (vz + az * d / 1000) * d / AU_TO_KM)),
           velocity := Vector3 (Fin (vx + ax * d / 1000)) (Fin (vy + ay * d / 1000))
                               (Fin (vz + az * d / 1000)),
           acceleration := Vector3 (Fin ax) (Fin ay) (Fin az)\<rparr>"
  by (simp add: integrateMotion_def Let_def AU_TO_KM_def)

section \<open>Properties of the spacecraft systems\<close>

text \<open>
  Claim C4. \<open>executeBurn\<close> returns a typed result in every case: the failure
  \<open>No ignitions remaining\<close> when the ignitions are used up; otherwise the failure
  \<open>Insufficient fuel\<close> when the computed fuel requirement exceeds the fuel of the main
  tank; otherwise the failure \<open>Insufficient power\<close> when the battery charge is below 10;
  otherwise a success carrying the fuel requirement, with the throttle set to 1, the
  ignition count one higher and the timer set. On every failure the systems are
  unchanged and the reason is one of the three.
\<close>

theorem executeBurn_typed_result:
  "(ignitionsUsed s \<ge> ignitions s \<longrightarrow>
      executeBurn s deltaV duration m = (Failure ''No ignitions remaining'', s, None))
   \<and> (ignitionsUsed s < ignitions s \<and>
        calculateFuelRequired s (case deltaV of Magnitude d \<Rightarrow> d | Vector v \<Rightarrow> rlength v) m
          > mainFuel s \<longrightarrow>
      executeBurn s deltaV duration m = (Failure ''Insufficient fuel'', s, None))
   \<and> (ignitionsUsed s < ignitions s \<and>
        calculateFuelRequired s (case deltaV of Magnitude d \<Rightarrow> d | Vector v \<Rightarrow> rlength v) m
          \<le> mainFuel s \<and> batteryCharge s < 10 \<longrightarrow>
      executeBurn s deltaV duration m = (Failure ''Insufficient power'', s, None))
   \<and> (ignitionsUsed s < ignitions s \<and>
        calculateFuelRequired s (case deltaV of Magnitude d \<Rightarrow> d | Vector v \<Rightarrow> rlength v) m
          \<le> mainFuel s \<and> batteryCharge s \<ge> 10 \<longrightarrow>
      executeBurn s deltaV duration m =
        (Success (calculateFuelRequired s
                    (case deltaV of Magnitude d \<Rightarrow> d | Vector v \<Rightarrow> rlength v) m),
         s\<lparr>throttle := 1, ignitionsUsed := ignitionsUsed s + 1\<rparr>,
         Some (duration * 1000)))
   \<and> (\<forall>reason. fst (executeBurn s deltaV duration m) = Failure reason \<longrightarrow>
        fst (snd (executeBurn s deltaV duration m)) = s
        \<and> reason \<in> {''No ignitions remaining'', ''Insufficient fuel'', ''Insufficient power''})"
  by (auto simp: executeBurn_def Let_def)

theorem executeBurn_typed_result_witness:
  "executeBurn defaultSystems (Magnitude 0) 60 1000 =
     (Success 0, defaultSystems\<lparr>throttle := 1, ignitionsUsed := 1\<rparr>, Some 60000)
   \<and> executeBurn (defaultSystems\<lparr>ignitionsUsed := 10\<rparr>) (Magnitude 0) 60 1000 =
     (Failure ''No ignitions remaining'', defaultSystems\<lparr>ignitionsUsed := 10\<rparr>, None)
   \<and> executeBurn (defaultSystems\<lparr>batteryCharge := 5\<rparr>) (Magnitude 0) 60 1000 =
     (Failure ''Insufficient power'', defaultSystems\<lparr>batteryCharge := 5\<rparr>, None)
   \<and> executeBurn (defaultSystems\<lparr>mainFuel := - 1\<rparr>) (Magnitude 0) 60 1000 =
     (Failure ''Insufficient fuel'', defaultSystems\<lparr>mainFuel := - 1\<rparr>, None)"
  using executeBurn_typed_result [of defaultSystems "Magnitude 0" 60 1000]
    executeBurn_typed_result [of "defaultSystems\<lparr>ignitionsUsed := 10\<rparr>" "Magnitude 0" 60 1000]
    executeBurn_typed_result [of "defaultSystems\<lparr>batteryCharge := 5\<rparr>" "Magnitude 0" 60 1000]
    executeBurn_typed_result [of "defaultSystems\<lparr>mainFuel := - 1\<rparr>" "Magnitude 0" 60 1000]
  by (simp add: defaultSystems_def calculateFuelRequired_def)

lemma rlength_axis: "rlength (RVector3 a 0 0) = \<bar>a\<bar>"
  by simp

text \<open>
  Claim C7 says that the RCS propellant never becomes negative. The guard of
  \<open>desaturateReactionWheels\<close> only skips the burn when the tank is empty: the amount
  burnt is not capped by what is left. With 0.005 kg left and a step of one second the
  tank ends at -0.005 kg, and from the default 50 kg two desaturation steps of 3600
  seconds end at -22 kg.
\<close>

theorem desaturate_drives_rcs_fuel_negative:
  "rcsFuel (desaturateReactionWheels (defaultSystems\<lparr>rcsFuel := 5 / 1000\<rparr>) 1) = - (5 / 1000)
   \<and> rcsFuel (applyTorque (defaultSystems\<lparr>rcsFuel := 5 / 1000, momentum := RVector3 45 0 0\<rparr>)
        (RVector3 0 0 (1 / 10)) 1) < 0
   \<and> rcsFuel (applyTorques (defaultSystems\<lparr>momentum := RVector3 45 0 0\<rparr>)
        [(RVector3 0 0 (1 / 10), 3600), (RVector3 0 0 (1 / 10), 3600)]) = - 22"
  by (simp add: desaturateReactionWheels_def applyTorque_def defaultSystems_def Let_def
      rlength_axis del: rlength.simps)

lemma applyTorque_maxMomentum: "maxMomentum (applyTorque s t dt) = maxMomentum s"
  by (simp add: applyTorque_def desaturateReactionWheels_def Let_def)

text \<open>
  Claim C2 says that the momentum magnitude of the reaction wheels never exceeds
  \<open>maxMomentum\<close>. \<open>applyTorque\<close> tests the magnitude before it adds torque times time
  step and never after, and nothing clamps the sum: one update of the default systems
  with torque \<open>(0.3, 0, 0)\<close> over a step of 3600 seconds leaves a momentum of magnitude
  1080 against a maximum of 50.
\<close>

theorem applyTorque_exceeds_maxMomentum:
  "rlength (momentum (applyTorques defaultSystems [(RVector3 (3 / 10) 0 0, 3600)])) = 1080
   \<and> maxMomentum (applyTorques defaultSystems [(RVector3 (3 / 10) 0 0, 3600)]) = 50
   \<and> rlength (momentum (applyTorques defaultSystems [(RVector3 (3 / 10) 0 0, 3600)]))
       > maxMomentum (applyTorques defaultSystems [(RVector3 (3 / 10) 0 0, 3600)])"
proof -
  have a: "momentum (applyTorque defaultSystems (RVector3 (3 / 10) 0 0) 3600) = RVector3 1080 0 0"
    by (simp add: applyTorque_def defaultSystems_def Let_def)
  have b: "maxMomentum (applyTorque defaultSystems (RVector3 (3 / 10) 0 0) 3600) = 50"
    by (simp add: applyTorque_maxMomentum defaultSystems_def)
  show ?thesis
    by (simp add: a b)
qed

section \<open>Properties of double-precision arithmetic\<close>

lemma unitRoundoff_pos: "0 < unitRoundoff"
  by (simp add: unitRoundoff_def)

lemma unitRoundoff_small: "unitRoundoff \<le> 1 / 10 ^ 15"
  by (simp add: unitRoundoff_def)

lemma maxDouble_big: "2 * 2 ^ 1000 \<le> maxDouble"
proof -
  have "(2::real) ^ (29 + 971) = 2 ^ 29 * 2 ^ 971"
    by (rule power_add)
  then have "2 * (2::real) ^ (29 + 971) = (2 * 2 ^ 29) * 2 ^ 971"
    by (simp only: mult.assoc)
  also have "\<dots> \<le> (2 ^ 53 - 1) * 2 ^ 971"
  proof (rule mult_right_mono)
    show "2 * (2::real) ^ 29 \<le> 2 ^ 53 - 1" by simp
    show "0 \<le> (2::real) ^ 971" by (rule zero_le_power) simp
  qed
  finally show ?thesis
    unfolding maxDouble_def by (simp del: power_numeral)
qed

lemma maxDouble_pos: "0 < maxDouble"
proof -
  have "0 < (2::real) ^ 1000" by (rule zero_less_power) simp
  then show ?thesis using maxDouble_big by linarith
qed

lemma pow10_45: "(10::real) ^ 45 \<le> 2 ^ 1000"
proof -
  have "(10::real) ^ 45 \<le> 2 ^ 150" by simp
  also have "\<dots> \<le> 2 ^ 1000" by (rule power_increasing) simp_all
  finally show ?thesis .
qed

lemma ieee_fl: "ieee pf \<Longrightarrow> \<bar>fl pf x - x\<bar> \<le> unitRoundoff * \<bar>x\<bar>"
  by (simp add: ieee_def)


lemma fl_zero: "ieee pf \<Longrightarrow> fl pf 0 = 0"
  using ieee_fl [of pf 0] by simp

lemma fl_err_half:
  assumes "ieee pf"
  shows "\<bar>fl pf x - x\<bar> \<le> \<bar>x\<bar> / 2"
proof -
  have a: "unitRoundoff * \<bar>x\<bar> \<le> (1 / 10 ^ 15) * \<bar>x\<bar>"
    using unitRoundoff_small by (intro mult_right_mono) simp_all
  have b: "(1 / 10 ^ 15) * \<bar>x\<bar> \<le> \<bar>x\<bar> / 2"
    by simp
  show ?thesis
    using ieee_fl [OF assms, of x] a b by linarith
qed

lemma fl_lower:
  assumes "ieee pf" "0 \<le> x"
  shows "x / 2 \<le> fl pf x" and "fl pf x \<le> 2 * x"
  using fl_err_half [OF assms(1), of x] assms(2) by linarith+

lemma fl_nonneg: "ieee pf \<Longrightarrow> 0 \<le> x \<Longrightarrow> 0 \<le> fl pf x"
  using fl_lower(1) [of pf x] by simp



lemma fl_abs_le:
  assumes "ieee pf"
  shows "\<bar>fl pf x\<bar> \<le> 2 * \<bar>x\<bar>"
  using fl_err_half [OF assms(1), of x] by linarith

lemma finish_Fin: "\<bar>y\<bar> \<le> maxDouble \<Longrightarrow> finish y = Fin y"
  by (auto simp: finish_def)

lemma finish_pos_cases: "0 < v \<Longrightarrow> finish v = PInf \<or> finish v = Fin v"
  using maxDouble_pos by (auto simp: finish_def)


lemma rounded_Fin:
  assumes "ieee pf" "\<bar>x\<bar> \<le> 2 ^ 1000"
  shows "rounded pf x = Fin (fl pf x)"
proof -
  have "\<bar>fl pf x\<bar> \<le> 2 * 2 ^ 1000"
    using fl_abs_le [OF assms(1), of x] assms(2) by linarith
  then have "\<bar>fl pf x\<bar> \<le> maxDouble"
    using maxDouble_big by linarith
  then show ?thesis
    by (simp add: rounded_def finish_Fin)
qed

lemma rounded_Fin_small:
  assumes "ieee pf" "\<bar>x\<bar> \<le> 10 ^ 45"
  shows "rounded pf x = Fin (fl pf x)"
proof -
  have "\<bar>x\<bar> \<le> 2 ^ 1000"
    using assms(2) pow10_45 by (rule order_trans)
  then show ?thesis by (rule rounded_Fin [OF assms(1)])
qed

lemma rounded_zero: "ieee pf \<Longrightarrow> rounded pf 0 = Fin 0"
  using rounded_Fin_small [of pf 0] by (simp add: fl_zero)

lemma closeTo_fl0: "ieee pf \<Longrightarrow> closeTo 1 (fl pf X) X"
  using ieee_fl [of pf X] by (simp add: closeTo_def)


lemma closeTo_weaken: "closeTo k x X \<Longrightarrow> k \<le> k' \<Longrightarrow> closeTo k' x X"
proof -
  assume a: "closeTo k x X" and b: "k \<le> k'"
  have "k * unitRoundoff * \<bar>X\<bar> \<le> k' * unitRoundoff * \<bar>X\<bar>"
    using b unitRoundoff_pos by (intro mult_right_mono) simp_all
  then show ?thesis using a unfolding closeTo_def by linarith
qed

lemma small_product:
  assumes "0 \<le> a" "a \<le> 10 ^ 6" "0 \<le> b" "b \<le> 10 ^ 6"
  shows "a * b * unitRoundoff \<le> 1 / 1000"
proof -
  have "a * b \<le> 10 ^ 6 * 10 ^ 6"
    using assms by (intro mult_mono) simp_all
  then have "a * b * unitRoundoff \<le> (10 ^ 6 * 10 ^ 6) * unitRoundoff"
    using unitRoundoff_pos by (intro mult_right_mono) simp_all
  also have "\<dots> \<le> (10 ^ 6 * 10 ^ 6) * (1 / 10 ^ 15)"
    using unitRoundoff_small by (intro mult_left_mono) simp_all
  also have "\<dots> = 1 / 1000" by simp
  finally show ?thesis .
qed

lemma closeTo_abs:
  assumes "closeTo k x X" "0 \<le> k" "k \<le> 10 ^ 6"
  shows "\<bar>x\<bar> \<le> (1 + k * unitRoundoff) * \<bar>X\<bar>" and "\<bar>x\<bar> \<le> 2 * \<bar>X\<bar>"
    and "\<bar>X\<bar> / 2 \<le> \<bar>x\<bar>"
proof -
  have ku: "k * unitRoundoff \<le> 1 / 1000"
    using small_product [of k 1] assms by simp
  have d: "\<bar>x - X\<bar> \<le> k * unitRoundoff * \<bar>X\<bar>"
    using assms(1) by (simp add: closeTo_def)
  have "(1 + k * unitRoundoff) * \<bar>X\<bar> = \<bar>X\<bar> + k * unitRoundoff * \<bar>X\<bar>"
    by (simp add: algebra_simps)
  with d show "\<bar>x\<bar> \<le> (1 + k * unitRoundoff) * \<bar>X\<bar>"
    by linarith
  have "k * unitRoundoff * \<bar>X\<bar> \<le> (1 / 1000) * \<bar>X\<bar>"
    using ku by (intro mult_right_mono) simp_all
  with d have "\<bar>x - X\<bar> \<le> \<bar>X\<bar> / 1000" by simp
  then show "\<bar>x\<bar> \<le> 2 * \<bar>X\<bar>" "\<bar>X\<bar> / 2 \<le> \<bar>x\<bar>" by linarith+
qed

lemma closeTo_sign:
  assumes "closeTo k x X" "0 \<le> k" "k \<le> 10 ^ 6"
  shows "0 < X \<Longrightarrow> 0 < x" and "0 \<le> X \<Longrightarrow> 0 \<le> x" and "X / 2 \<le> x \<or> X < 0"
proof -
  have ku: "k * unitRoundoff \<le> 1 / 1000"
    using small_product [of k 1] assms by simp
  have d: "\<bar>x - X\<bar> \<le> k * unitRoundoff * \<bar>X\<bar>"
    using assms(1) by (simp add: closeTo_def)
  have "k * unitRoundoff * \<bar>X\<bar> \<le> (1 / 1000) * \<bar>X\<bar>"
    using ku by (intro mult_right_mono) simp_all
  with d have e: "\<bar>x - X\<bar> \<le> \<bar>X\<bar> / 1000" by simp
  show "0 < X \<Longrightarrow> 0 < x" using e by linarith
  show "0 \<le> X \<Longrightarrow> 0 \<le> x" using e by linarith
  show "X / 2 \<le> x \<or> X < 0" using e by linarith
qed


lemma closeTo_mult:
  assumes "closeTo a x X" "closeTo b y Y" "0 \<le> a" "a \<le> 10 ^ 6" "0 \<le> b" "b \<le> 10 ^ 6"
  shows "closeTo (a + b + 1) (x * y) (X * Y)"
proof -
  have dx: "\<bar>x - X\<bar> \<le> a * unitRoundoff * \<bar>X\<bar>" and dy: "\<bar>y - Y\<bar> \<le> b * unitRoundoff * \<bar>Y\<bar>"
    using assms(1,2) by (simp_all add: closeTo_def)
  have y2: "\<bar>y\<bar> \<le> 2 * \<bar>Y\<bar>"
    using closeTo_abs(2) [OF assms(2,5,6)] .
  have "x * y - X * Y = (x - X) * y + X * (y - Y)"
    by (simp add: algebra_simps)
  then have "\<bar>x * y - X * Y\<bar> \<le> \<bar>x - X\<bar> * \<bar>y\<bar> + \<bar>X\<bar> * \<bar>y - Y\<bar>"
    by (metis abs_mult abs_triangle_ineq)
  also have "\<dots> \<le> (a * unitRoundoff * \<bar>X\<bar>) * \<bar>y\<bar> + \<bar>X\<bar> * (b * unitRoundoff * \<bar>Y\<bar>)"
    using dx dy by (intro add_mono mult_right_mono mult_left_mono) simp_all
  also have "\<dots> \<le> (a * unitRoundoff * \<bar>X\<bar>) * ((1 + b * unitRoundoff) * \<bar>Y\<bar>) + \<bar>X\<bar> * (b * unitRoundoff * \<bar>Y\<bar>)"
  proof -
    have "0 \<le> a * unitRoundoff * \<bar>X\<bar>"
      using assms(3) unitRoundoff_pos by simp
    then have "(a * unitRoundoff * \<bar>X\<bar>) * \<bar>y\<bar> \<le> (a * unitRoundoff * \<bar>X\<bar>) * ((1 + b * unitRoundoff) * \<bar>Y\<bar>)"
      using closeTo_abs(1) [OF assms(2,5,6)] by (rule mult_left_mono [rotated])
    then show ?thesis by simp
  qed
  also have "\<dots> = (a + b + a * b * unitRoundoff) * unitRoundoff * (\<bar>X\<bar> * \<bar>Y\<bar>)"
    by (simp add: algebra_simps)
  also have "\<dots> \<le> (a + b + 1) * unitRoundoff * (\<bar>X\<bar> * \<bar>Y\<bar>)"
    using small_product [OF assms(3,4,5,6)] unitRoundoff_pos
    by (intro mult_right_mono) simp_all
  finally show ?thesis
    by (simp add: closeTo_def abs_mult)
qed

lemma closeTo_divide:
  assumes "closeTo a x X" "closeTo b y Y" "Y \<noteq> 0" "0 \<le> a" "a \<le> 10 ^ 6" "0 \<le> b" "b \<le> 10 ^ 6"
  shows "closeTo (a + b + 1) (x / y) (X / Y)" and "y \<noteq> 0"
proof -
  have dx: "\<bar>x - X\<bar> \<le> a * unitRoundoff * \<bar>X\<bar>" and dy: "\<bar>y - Y\<bar> \<le> b * unitRoundoff * \<bar>Y\<bar>"
    using assms(1,2) by (simp_all add: closeTo_def)
  have bu: "b * unitRoundoff \<le> 1 / 1000"
    using small_product [of b 1] assms by simp
  have "b * unitRoundoff * \<bar>Y\<bar> \<le> (1 / 1000) * \<bar>Y\<bar>"
    using bu by (intro mult_right_mono) simp_all
  with dy have dy': "\<bar>y - Y\<bar> \<le> \<bar>Y\<bar> / 1000" by simp
  have Ypos: "0 < \<bar>Y\<bar>" using assms(3) by simp
  show ynz: "y \<noteq> 0" using dy' Ypos by auto
  have ypos: "0 < \<bar>y\<bar>" using ynz by simp
  have "(1 - b * unitRoundoff) * \<bar>Y\<bar> = \<bar>Y\<bar> - b * unitRoundoff * \<bar>Y\<bar>"
    by (simp add: algebra_simps)
  with dy have ylow: "(1 - b * unitRoundoff) * \<bar>Y\<bar> \<le> \<bar>y\<bar>"
    by linarith
  have "x / y - X / Y = ((x - X) * Y + X * (Y - y)) / (y * Y)"
    using ynz assms(3) by (simp add: field_simps)
  then have "\<bar>x / y - X / Y\<bar> = \<bar>(x - X) * Y + X * (Y - y)\<bar> / (\<bar>y\<bar> * \<bar>Y\<bar>)"
    by (simp add: abs_mult)
  also have "\<dots> \<le> (\<bar>x - X\<bar> * \<bar>Y\<bar> + \<bar>X\<bar> * \<bar>y - Y\<bar>) / (\<bar>y\<bar> * \<bar>Y\<bar>)"
  proof (intro divide_right_mono)
    have "\<bar>(x - X) * Y + X * (Y - y)\<bar> \<le> \<bar>(x - X) * Y\<bar> + \<bar>X * (Y - y)\<bar>"
      by (rule abs_triangle_ineq)
    then show "\<bar>(x - X) * Y + X * (Y - y)\<bar> \<le> \<bar>x - X\<bar> * \<bar>Y\<bar> + \<bar>X\<bar> * \<bar>y - Y\<bar>"
      by (simp add: abs_mult abs_minus_commute)
    show "0 \<le> \<bar>y\<bar> * \<bar>Y\<bar>" by simp
  qed
  also have "\<dots> \<le> ((a * unitRoundoff * \<bar>X\<bar>) * \<bar>Y\<bar> + \<bar>X\<bar> * (b * unitRoundoff * \<bar>Y\<bar>)) / (\<bar>y\<bar> * \<bar>Y\<bar>)"
    using dx dy by (intro divide_right_mono add_mono mult_right_mono mult_left_mono) simp_all
  also have "\<dots> = (a + b) * unitRoundoff * \<bar>X\<bar> / \<bar>y\<bar>"
  proof -
    have "(a * unitRoundoff * \<bar>X\<bar>) * \<bar>Y\<bar> + \<bar>X\<bar> * (b * unitRoundoff * \<bar>Y\<bar>)
        = ((a + b) * unitRoundoff * \<bar>X\<bar>) * \<bar>Y\<bar>"
      by (simp add: algebra_simps)
    then show ?thesis
      using Ypos by simp
  qed
  also have "\<dots> \<le> (a + b) * unitRoundoff * \<bar>X\<bar> / ((1 - b * unitRoundoff) * \<bar>Y\<bar>)"
  proof (intro divide_left_mono)
    show "(1 - b * unitRoundoff) * \<bar>Y\<bar> \<le> \<bar>y\<bar>" by (rule ylow)
    show "0 \<le> (a + b) * unitRoundoff * \<bar>X\<bar>"
      using assms(4,6) unitRoundoff_pos by simp
    show "0 < \<bar>y\<bar> * ((1 - b * unitRoundoff) * \<bar>Y\<bar>)"
      using ypos Ypos bu by simp
  qed
  also have "\<dots> = ((a + b) / (1 - b * unitRoundoff)) * unitRoundoff * (\<bar>X\<bar> / \<bar>Y\<bar>)"
    by simp
  also have "\<dots> \<le> (a + b + 1) * unitRoundoff * (\<bar>X\<bar> / \<bar>Y\<bar>)"
  proof (intro mult_right_mono)
    have "(a + b) * (b * unitRoundoff) \<le> 1 / 1000 + 1 / 1000"
      using small_product [OF assms(4,5,6,7)] small_product [OF assms(6,7,6,7)]
      by (simp add: algebra_simps)
    moreover have "b * unitRoundoff \<ge> 0" using assms(6) unitRoundoff_pos by simp
    ultimately have "a + b \<le> (a + b + 1) * (1 - b * unitRoundoff)"
      using bu by (simp add: algebra_simps)
    then show "(a + b) / (1 - b * unitRoundoff) \<le> a + b + 1"
      using bu by (simp add: pos_divide_le_eq)
    show "0 \<le> unitRoundoff" using unitRoundoff_pos by simp
    show "0 \<le> \<bar>X\<bar> / \<bar>Y\<bar>" by simp
  qed
  finally show "closeTo (a + b + 1) (x / y) (X / Y)"
    by (simp add: closeTo_def)
qed

lemma closeTo_sqrt:
  assumes "closeTo a x X" "0 \<le> X" "0 \<le> x" "0 \<le> a"
  shows "closeTo a (sqrt x) (sqrt X)"
proof (cases "X = 0")
  case True
  then have "x = 0" using assms(1) by (simp add: closeTo_def)
  with True show ?thesis by (simp add: closeTo_def)
next
  case False
  then have Xpos: "0 < X" using assms(2) by simp
  have dx: "\<bar>x - X\<bar> \<le> a * unitRoundoff * X"
    using assms(1,2) by (simp add: closeTo_def)
  have s: "0 < sqrt X" using Xpos by simp
  have "(sqrt x - sqrt X) * (sqrt x + sqrt X) = x - X"
    using assms(2,3) by (simp add: algebra_simps)
  then have "\<bar>sqrt x - sqrt X\<bar> * (sqrt x + sqrt X) = \<bar>x - X\<bar>"
    using assms(3) s by (metis abs_mult abs_of_nonneg add_nonneg_nonneg less_imp_le real_sqrt_ge_zero)
  moreover have "\<bar>sqrt x - sqrt X\<bar> * sqrt X \<le> \<bar>sqrt x - sqrt X\<bar> * (sqrt x + sqrt X)"
    using assms(3) by (intro mult_left_mono) simp_all
  ultimately have "\<bar>sqrt x - sqrt X\<bar> * sqrt X \<le> a * unitRoundoff * (sqrt X * sqrt X)"
    using dx Xpos by simp
  then have "\<bar>sqrt x - sqrt X\<bar> * sqrt X \<le> (a * unitRoundoff * sqrt X) * sqrt X"
    by (simp add: algebra_simps)
  then have "\<bar>sqrt x - sqrt X\<bar> \<le> a * unitRoundoff * sqrt X"
    using s by (rule mult_right_le_imp_le)
  then show ?thesis
    using s by (simp add: closeTo_def)
qed




section \<open>Properties of the orbit propagator\<close>



lemma jadd_NaN_right [simp]: "jadd x NaN = NaN"
  by (cases x) simp_all

lemma jmul_NaN_right [simp]: "jmul x NaN = NaN"
  by (cases x) simp_all

lemma jdiv_NaN_right [simp]: "jdiv x NaN = NaN"
  by (cases x) simp_all

lemma pmul_NaN_right [simp]: "pmul pf x NaN = NaN"
  by (cases x) simp_all

lemma pmul_NaN_left [simp]: "pmul pf NaN x = NaN"
  by (cases x) simp_all

lemma padd_NaN_right [simp]: "padd pf x NaN = NaN"
  by (cases x) simp_all

lemma padd_NaN_left [simp]: "padd pf NaN x = NaN"
  by (cases x) simp_all

lemma psub_NaN_right [simp]: "psub pf x NaN = NaN"
  by (simp add: psub_def)

lemma psub_NaN_left [simp]: "psub pf NaN x = NaN"
  by (simp add: psub_def)

lemma pdiv_NaN_right [simp]: "pdiv pf x NaN = NaN"
  by (cases x) simp_all

lemma pdiv_NaN_left [simp]: "pdiv pf NaN x = NaN"
  by (cases x) simp_all


















end
